theory Spec2Isabelle
  imports Complex_Main
begin

section \<open>KML viewer: coordinate parsing, validation and path length\<close>

text \<open>
  A shallow embedding of \<^verbatim>\<open>src/src/App.js\<close> (the \<^verbatim>\<open>KMLViewer\<close> component):
  \<^verbatim>\<open>isValidCoordinate\<close>, \<^verbatim>\<open>calculateLength\<close>, \<^verbatim>\<open>parseCoordinates\<close>,
  \<^verbatim>\<open>processKMLData\<close> and the \<^verbatim>\<open>onload\<close> handler of \<^verbatim>\<open>handleFileUpload\<close>.

  Numbers. A JavaScript number is NaN, one of the two infinities or a finite value. The
  finite values are taken as exact reals: the rounding of binary64 and its signed zero are
  not part of this model, with one exception: the addition of the running total of
  \<^verbatim>\<open>calculateLength\<close> is also given with the rounding of binary64, to tell what
  depends on the order of the additions. The special cases of the arithmetic (NaN is absorbing,
  \<open>\<infinity> - \<infinity>\<close>, \<open>sin \<infinity>\<close>, the square root of a negative number) follow ECMAScript.

  Strings are lists of 8-bit characters, so the model covers the texts whose code units
  are below 256.
\<close>

subsection \<open>Numbers\<close>

datatype num = NaN | PosInf | NegInf | Fin real

fun num_neg :: "num \<Rightarrow> num" where
  "num_neg NaN = NaN"
| "num_neg PosInf = NegInf"
| "num_neg NegInf = PosInf"
| "num_neg (Fin x) = Fin (- x)"

fun num_add :: "num \<Rightarrow> num \<Rightarrow> num" where
  "num_add NaN _ = NaN"
| "num_add _ NaN = NaN"
| "num_add PosInf NegInf = NaN"
| "num_add NegInf PosInf = NaN"
| "num_add PosInf _ = PosInf"
| "num_add _ PosInf = PosInf"
| "num_add NegInf _ = NegInf"
| "num_add _ NegInf = NegInf"
| "num_add (Fin x) (Fin y) = Fin (x + y)"

definition num_sub :: "num \<Rightarrow> num \<Rightarrow> num" where
  "num_sub a b = num_add a (num_neg b)"

text \<open>The sign of a number that is not NaN: \<open>-1\<close>, \<open>0\<close> or \<open>1\<close>.\<close>

fun num_sign :: "num \<Rightarrow> int" where
  "num_sign NaN = 0"
| "num_sign PosInf = 1"
| "num_sign NegInf = - 1"
| "num_sign (Fin x) = (if x < 0 then - 1 else if x = 0 then 0 else 1)"

definition signed_inf :: "int \<Rightarrow> num" where
  "signed_inf s = (if s < 0 then NegInf else PosInf)"

fun num_mul :: "num \<Rightarrow> num \<Rightarrow> num" where
  "num_mul NaN _ = NaN"
| "num_mul _ NaN = NaN"
| "num_mul (Fin x) (Fin y) = Fin (x * y)"
| "num_mul a b =
     (if num_sign a = 0 \<or> num_sign b = 0 then NaN else signed_inf (num_sign a * num_sign b))"

text \<open>Division; a zero divisor is taken as \<open>+0\<close>.\<close>

fun num_div :: "num \<Rightarrow> num \<Rightarrow> num" where
  "num_div NaN _ = NaN"
| "num_div _ NaN = NaN"
| "num_div (Fin x) (Fin y) =
     (if y = 0 then (if x = 0 then NaN else signed_inf (num_sign (Fin x))) else Fin (x / y))"
| "num_div (Fin x) _ = Fin 0"
| "num_div a (Fin y) = signed_inf (num_sign a * (if y < 0 then - 1 else 1))"
| "num_div _ _ = NaN"

fun Math_sin :: "num \<Rightarrow> num" where
  "Math_sin (Fin x) = Fin (sin x)"
| "Math_sin _ = NaN"

fun Math_cos :: "num \<Rightarrow> num" where
  "Math_cos (Fin x) = Fin (cos x)"
| "Math_cos _ = NaN"

fun Math_sqrt :: "num \<Rightarrow> num" where
  "Math_sqrt (Fin x) = (if x < 0 then NaN else Fin (sqrt x))"
| "Math_sqrt PosInf = PosInf"
| "Math_sqrt _ = NaN"

text \<open>\<^verbatim>\<open>Math.atan2(y, x)\<close>: the angle of the point \<open>(x, y)\<close>, in \<open>(-\<pi>, \<pi>]\<close>.\<close>

definition atan2_real :: "real \<Rightarrow> real \<Rightarrow> real" where
  "atan2_real y x =
     (if 0 < x then arctan (y / x)
      else if x < 0 then (if 0 \<le> y then arctan (y / x) + pi else arctan (y / x) - pi)
      else if 0 < y then pi / 2
      else if y < 0 then - (pi / 2)
      else 0)"

fun Math_atan2 :: "num \<Rightarrow> num \<Rightarrow> num" where
  "Math_atan2 NaN _ = NaN"
| "Math_atan2 _ NaN = NaN"
| "Math_atan2 (Fin y) (Fin x) = Fin (atan2_real y x)"
| "Math_atan2 (Fin y) PosInf = Fin 0"
| "Math_atan2 (Fin y) NegInf = (if y < 0 then Fin (- pi) else Fin pi)"
| "Math_atan2 PosInf (Fin x) = Fin (pi / 2)"
| "Math_atan2 PosInf PosInf = Fin (pi / 4)"
| "Math_atan2 PosInf NegInf = Fin (3 * pi / 4)"
| "Math_atan2 NegInf (Fin x) = Fin (- (pi / 2))"
| "Math_atan2 NegInf PosInf = Fin (- (pi / 4))"
| "Math_atan2 NegInf NegInf = Fin (- (3 * pi / 4))"

definition Math_PI :: num where
  "Math_PI = Fin pi"

fun isNaN :: "num \<Rightarrow> bool" where
  "isNaN NaN = True"
| "isNaN _ = False"

subsection \<open>Values\<close>

text \<open>
  The values that reach the geometry code: \<^verbatim>\<open>undefined\<close> (a missing array element),
  strings and numbers. An array of values is a list.
\<close>

datatype jsval = JUndefined | JString string | JNumber num

fun typeof_number :: "jsval \<Rightarrow> bool" where
  "typeof_number (JNumber _) = True"
| "typeof_number _ = False"

text \<open>
  The global \<^verbatim>\<open>isNaN\<close> converts its argument to a number first. In
  \<^verbatim>\<open>isValidCoordinate\<close> it runs only after both \<^verbatim>\<open>typeof\<close> tests have passed, so
  the conversion of \<^verbatim>\<open>undefined\<close> (NaN) is the only other case written out; the
  conversion of a string is not modelled and is never reached.
\<close>

fun isNaN_val :: "jsval \<Rightarrow> bool" where
  "isNaN_val (JNumber n) = isNaN n"
| "isNaN_val _ = True"

text \<open>\<^verbatim>\<open>a[i]\<close> on an array: \<^verbatim>\<open>undefined\<close> out of range.\<close>

definition elem_at :: "jsval list \<Rightarrow> nat \<Rightarrow> jsval" where
  "elem_at a i = (if i < length a then a ! i else JUndefined)"

text \<open>
  \<^verbatim>\<open>
  const isValidCoordinate = (coord) => {
    return (
      Array.isArray(coord) && coord.length === 2 &&
      typeof coord[0] === "number" && typeof coord[1] === "number" &&
      !isNaN(coord[0]) && !isNaN(coord[1])
    );
  };
  \<close>
  The argument is an array here, so \<^verbatim>\<open>Array.isArray\<close> holds.
\<close>

definition isValidCoordinate :: "jsval list \<Rightarrow> bool" where
  "isValidCoordinate coord =
     (length coord = 2 \<and>
      typeof_number (elem_at coord 0) \<and> typeof_number (elem_at coord 1) \<and>
      \<not> isNaN_val (elem_at coord 0) \<and> \<not> isNaN_val (elem_at coord 1))"

text \<open>
  The operands of the arithmetic in \<^verbatim>\<open>calculateLength\<close> have passed
  \<^verbatim>\<open>isValidCoordinate\<close>, so they are numbers, and the first case is the only one
  that is reached.
\<close>

fun toNumber :: "jsval \<Rightarrow> num" where
  "toNumber (JNumber n) = n"
| "toNumber _ = NaN"

subsection \<open>Decimal strings\<close>

definition isWhiteSpace :: "char \<Rightarrow> bool" where
  "isWhiteSpace c = ((of_char c :: nat) \<in> {9, 10, 11, 12, 13, 32, 160})"

definition isDigit :: "char \<Rightarrow> bool" where
  "isDigit c = (48 \<le> (of_char c :: nat) \<and> (of_char c :: nat) \<le> 57)"

definition digit_val :: "char \<Rightarrow> nat" where
  "digit_val c = of_char c - 48"

definition digit_char :: "nat \<Rightarrow> char" where
  "digit_char d = ''0123456789'' ! d"

definition digits_val :: "string \<Rightarrow> nat" where
  "digits_val ds = foldl (\<lambda>acc c. 10 * acc + digit_val c) 0 ds"

fun digits_of :: "nat \<Rightarrow> string" where
  "digits_of n = (if n < 10 then [digit_char n] else digits_of (n div 10) @ [digit_char (n mod 10)])"

declare digits_of.simps [simp del]

text \<open>
  \<^verbatim>\<open>Number.prototype.toString\<close>. The digits of a finite value other than zero depend
  on its binary64 representation, so that part of the built-in is the parameter \<open>ts\<close>.
\<close>

fun Number_toString :: "(real \<Rightarrow> string) \<Rightarrow> num \<Rightarrow> string" where
  "Number_toString ts NaN = ''NaN''"
| "Number_toString ts PosInf = ''Infinity''"
| "Number_toString ts NegInf = ''-Infinity''"
| "Number_toString ts (Fin x) = (if x = 0 then ''0'' else ts x)"

text \<open>
  \<^verbatim>\<open>x.toFixed(2)\<close>, after ECMAScript: a value that is not finite prints as
  \<^verbatim>\<open>toString\<close> does; otherwise the sign is split off, a magnitude of \<open>10^21\<close> or more
  prints as \<^verbatim>\<open>toString\<close> does, and a smaller one as the integer \<open>n\<close> nearest to
  \<open>100 * x\<close> (the larger of two), padded to three digits, with a point before the last two.
\<close>

definition toFixed2 :: "(real \<Rightarrow> string) \<Rightarrow> num \<Rightarrow> string" where
  "toFixed2 ts v =
     (case v of
        Fin x \<Rightarrow>
          (let s = (if x < 0 then ''-'' else []);
               x = \<bar>x\<bar>
           in if 10 ^ 21 \<le> x then s @ Number_toString ts (Fin x)
              else
                (let n = nat \<lfloor>x * 100 + 1 / 2\<rfloor>;
                     m = digits_of n;
                     m = (if length m \<le> 2 then replicate (3 - length m) (CHR ''0'') @ m else m);
                     k = length m
                 in s @ take (k - 2) m @ ''.'' @ drop (k - 2) m))
      | _ \<Rightarrow> Number_toString ts v)"

text \<open>
  \<^verbatim>\<open>parseFloat\<close>, after ECMAScript: leading white space is skipped, the longest prefix
  that is a decimal literal is read (an optional sign, then \<^verbatim>\<open>Infinity\<close> or digits
  with an optional fraction and an optional exponent), and what follows is ignored. With
  no such prefix the result is NaN.
\<close>

definition starts_with :: "string \<Rightarrow> string \<Rightarrow> bool" where
  "starts_with p s = (take (length p) s = p)"

text \<open>The exponent part of a literal: \<^verbatim>\<open>e\<close> or \<^verbatim>\<open>E\<close>, an optional sign, digits.\<close>

definition exponent_of :: "string \<Rightarrow> int" where
  "exponent_of r =
     (case r of
        [] \<Rightarrow> 0
      | c # r1 \<Rightarrow>
          if c = CHR ''e'' \<or> c = CHR ''E'' then
            (let neg = starts_with ''-'' r1;
                 r2 = (if starts_with ''-'' r1 \<or> starts_with ''+'' r1 then tl r1 else r1);
                 ds = takeWhile isDigit r2
             in if ds = [] then 0
                else if neg then - int (digits_val ds) else int (digits_val ds))
          else 0)"

definition scale10 :: "real \<Rightarrow> int \<Rightarrow> real" where
  "scale10 v k = (if 0 \<le> k then v * 10 ^ nat k else v / 10 ^ nat (- k))"

definition parseFloat :: "string \<Rightarrow> num" where
  "parseFloat str =
     (let t = dropWhile isWhiteSpace str;
          neg = starts_with ''-'' t;
          u = (if starts_with ''-'' t \<or> starts_with ''+'' t then tl t else t)
      in if starts_with ''Infinity'' u then (if neg then NegInf else PosInf)
         else
           (let ip = takeWhile isDigit u;
                r1 = dropWhile isDigit u;
                dot = starts_with ''.'' r1;
                fp = (if dot then takeWhile isDigit (tl r1) else []);
                r2 = (if dot then dropWhile isDigit (tl r1) else r1)
            in if ip = [] \<and> fp = [] then NaN
               else
                 (let v = scale10 (real (digits_val (ip @ fp))) (exponent_of r2 - int (length fp))
                  in Fin (if neg then - v else v))))"

subsection \<open>Path length\<close>

text \<open>
  The loop of \<^verbatim>\<open>calculateLength\<close>, from index \<open>i\<close> with the running total \<open>len\<close>:
  \<^verbatim>\<open>
  for (let i = 1; i < coords.length; i++) {
    const [lat1, lon1] = coords[i - 1];
    const [lat2, lon2] = coords[i];
    if (!isValidCoordinate([lat1, lon1]) || !isValidCoordinate([lat2, lon2])) continue;
    const R = 6371; // Earth radius in km
    const dLat = ((lat2 - lat1) * Math.PI) / 180;
    const dLon = ((lon2 - lon1) * Math.PI) / 180;
    const a =
      Math.sin(dLat / 2) * Math.sin(dLat / 2) +
      Math.cos((lat1 * Math.PI) / 180) * Math.cos((lat2 * Math.PI) / 180) *
        Math.sin(dLon / 2) * Math.sin(dLon / 2);
    const c = 2 * Math.atan2(Math.sqrt(a), Math.sqrt(1 - a));
    length += R * c;
  }
  \<close>
  The elements of \<open>coords\<close> are arrays; destructuring reads their first two elements.
\<close>

function calc_loop :: "jsval list list \<Rightarrow> nat \<Rightarrow> num \<Rightarrow> num" where
  "calc_loop coords i len =
     (if i < length coords then
        (let lat1 = elem_at (coords ! (i - 1)) 0;
             lon1 = elem_at (coords ! (i - 1)) 1;
             lat2 = elem_at (coords ! i) 0;
             lon2 = elem_at (coords ! i) 1
         in if \<not> isValidCoordinate [lat1, lon1] \<or> \<not> isValidCoordinate [lat2, lon2]
            then calc_loop coords (i + 1) len
            else
              (let R = Fin 6371;
                   dLat = num_div (num_mul (num_sub (toNumber lat2) (toNumber lat1)) Math_PI) (Fin 180);
                   dLon = num_div (num_mul (num_sub (toNumber lon2) (toNumber lon1)) Math_PI) (Fin 180);
                   a = num_add
                         (num_mul (Math_sin (num_div dLat (Fin 2))) (Math_sin (num_div dLat (Fin 2))))
                         (num_mul
                            (num_mul
                               (num_mul (Math_cos (num_div (num_mul (toNumber lat1) Math_PI) (Fin 180)))
                                        (Math_cos (num_div (num_mul (toNumber lat2) Math_PI) (Fin 180))))
                               (Math_sin (num_div dLon (Fin 2))))
                            (Math_sin (num_div dLon (Fin 2))));
                   c = num_mul (Fin 2) (Math_atan2 (Math_sqrt a) (Math_sqrt (num_sub (Fin 1) a)))
               in calc_loop coords (i + 1) (num_add len (num_mul R c))))
      else len)"
  by pat_completeness auto
termination
  by (relation "measure (\<lambda>(coords, i, len). length coords - i)") auto

declare calc_loop.simps [simp del]

text \<open>
  \<^verbatim>\<open>
  const calculateLength = (coords) => {
    if (!coords || coords.length < 2) return 0;
    let length = 0;
    for (...) {...}
    return length.toFixed(2);
  };
  \<close>
  The early exit returns the number \<open>0\<close>; the other exit returns a string.
\<close>

definition calculateLength :: "(real \<Rightarrow> string) \<Rightarrow> jsval list list \<Rightarrow> jsval" where
  "calculateLength ts coords =
     (if length coords < 2 then JNumber (Fin 0)
      else JString (toFixed2 ts (calc_loop coords 1 (Fin 0))))"

subsection \<open>The order of the additions\<close>







subsection \<open>Coordinate strings\<close>

text \<open>\<^verbatim>\<open>s.trim()\<close>.\<close>

definition trim :: "string \<Rightarrow> string" where
  "trim s = rev (dropWhile isWhiteSpace (rev (dropWhile isWhiteSpace s)))"

text \<open>
  \<^verbatim>\<open>s.split(/\s+/)\<close>: the pieces between the maximal runs of white space; a run at
  either end leaves an empty piece there, and the empty string gives one empty piece.
\<close>

function split_ws :: "string \<Rightarrow> string list" where
  "split_ws s =
     (let tok = takeWhile (\<lambda>c. \<not> isWhiteSpace c) s;
          rest = dropWhile (\<lambda>c. \<not> isWhiteSpace c) s
      in if rest = [] then [tok] else tok # split_ws (dropWhile isWhiteSpace rest))"
  by pat_completeness auto
termination
proof (relation "measure length")
  show "wf (measure length)" by simp
next
  fix s :: string and tok rest
  assume r: "rest = dropWhile (\<lambda>c. \<not> isWhiteSpace c) s" and ne: "rest \<noteq> []"
  have ws: "isWhiteSpace (hd rest)"
    using hd_dropWhile [of "\<lambda>c. \<not> isWhiteSpace c" s] r ne by simp
  have "length (dropWhile isWhiteSpace rest) < length rest"
    using ne ws by (cases rest) (simp_all add: le_imp_less_Suc length_dropWhile_le)
  moreover have "length rest \<le> length s"
    using r by (simp add: length_dropWhile_le)
  ultimately show "(dropWhile isWhiteSpace rest, s) \<in> measure length" by simp
qed

declare split_ws.simps [simp del]

text \<open>\<^verbatim>\<open>s.split(",")\<close>.\<close>

function split_comma :: "string \<Rightarrow> string list" where
  "split_comma s =
     (let tok = takeWhile (\<lambda>c. c \<noteq> CHR '','') s;
          rest = dropWhile (\<lambda>c. c \<noteq> CHR '','') s
      in if rest = [] then [tok] else tok # split_comma (tl rest))"
  by pat_completeness auto
termination
proof (relation "measure length")
  show "wf (measure length)" by simp
next
  fix s :: string and tok rest
  assume r: "rest = dropWhile (\<lambda>c. c \<noteq> CHR '','') s" and ne: "rest \<noteq> []"
  have "length (tl rest) < length rest" using ne by (cases rest) simp_all
  moreover have "length rest \<le> length s"
    using r by (simp add: length_dropWhile_le)
  ultimately show "(tl rest, s) \<in> measure length" by simp
qed

declare split_comma.simps [simp del]

text \<open>
  The callback of \<^verbatim>\<open>map\<close> in \<^verbatim>\<open>parseCoordinates\<close>; \<^verbatim>\<open>null\<close> is \<open>None\<close>:
  \<^verbatim>\<open>
  (coord) => {
    const [lng, lat] = coord.split(",");
    if (!lng || !lat) return null;
    const parsedCoord = [parseFloat(lat), parseFloat(lng)];
    return isValidCoordinate(parsedCoord) ? parsedCoord : null;
  }
  \<close>
  A field is falsy when it is missing or empty.
\<close>

definition parse_tuple :: "string \<Rightarrow> jsval list option" where
  "parse_tuple coord =
     (case split_comma coord of
        lng # lat # _ \<Rightarrow>
          if lng = [] \<or> lat = [] then None
          else
            (let parsedCoord = [JNumber (parseFloat lat), JNumber (parseFloat lng)]
             in if isValidCoordinate parsedCoord then Some parsedCoord else None)
      | _ \<Rightarrow> None)"

text \<open>
  \<^verbatim>\<open>
  const parseCoordinates = (coordString) => {
    if (!coordString) return [];
    return coordString.trim().split(/\s+/).map(...).filter(coord => coord !== null);
  };
  \<close>
  The argument is a string or \<^verbatim>\<open>undefined\<close> (\<open>None\<close>).
\<close>

definition parseCoordinates :: "string option \<Rightarrow> jsval list list" where
  "parseCoordinates coordString =
     (case coordString of
        None \<Rightarrow> []
      | Some s \<Rightarrow>
          if s = [] then []
          else map the (filter (\<lambda>coord. coord \<noteq> None) (map parse_tuple (split_ws (trim s)))))"

subsection \<open>Placemarks\<close>

text \<open>
  The parsed document, in the shape the XML parser gives it: every child element is an
  array of nodes under the name of its tag, and a tag that is absent is a missing property
  (\<open>None\<close>). A node without children (the parser gives the empty string for it) is a node
  with every property missing.
\<close>

record geom_node =
  coordinates :: "string list option"

record boundary_node =
  LinearRing :: "geom_node list option"

record polygon_node =
  outerBoundaryIs :: "boundary_node list option"

record multi_node =
  lines :: "geom_node list option"

record placemark =
  name :: "string list option"
  Point :: "geom_node list option"
  LineString :: "geom_node list option"
  Polygon :: "polygon_node list option"
  MultiGeometry :: "multi_node list option"

record document =
  Placemark :: "placemark list option"

record kml_node =
  Document :: "document list option"

record xml_result =
  kml :: "kml_node option"

text \<open>\<^verbatim>\<open>a?.[0]\<close> on an array that may be missing, and \<^verbatim>\<open>a[0]\<close> on an array.\<close>

definition first :: "'a list \<Rightarrow> 'a option" where
  "first a = (case a of [] \<Rightarrow> None | x # _ \<Rightarrow> Some x)"

definition opt_first :: "'a list option \<Rightarrow> 'a option" where
  "opt_first a = Option.bind a first"

text \<open>\<^verbatim>\<open>node?.coordinates?.[0]\<close>.\<close>

definition coordinates0 :: "geom_node option \<Rightarrow> string option" where
  "coordinates0 node = opt_first (Option.bind node coordinates)"

text \<open>\<^verbatim>\<open>placemark.name?.[0] || dflt\<close>: the empty string is falsy.\<close>

definition name_or :: "placemark \<Rightarrow> string \<Rightarrow> string" where
  "name_or placemark dflt =
     (case opt_first (name placemark) of
        None \<Rightarrow> dflt
      | Some n \<Rightarrow> if n = [] then dflt else n)"

text \<open>
  The records pushed to \<^verbatim>\<open>parsedElements\<close>, one constructor for each value of
  \<^verbatim>\<open>type\<close>: the coordinates, the length where the record has one, the name.
\<close>

datatype element =
    PointElement "jsval list list" string
  | LineStringElement "jsval list list" jsval string
  | PolygonElement "jsval list list" string
  | MultiLineStringElement "jsval list list list" string string

fun element_type :: "element \<Rightarrow> string" where
  "element_type (PointElement _ _) = ''Point''"
| "element_type (LineStringElement _ _ _) = ''LineString''"
| "element_type (PolygonElement _ _) = ''Polygon''"
| "element_type (MultiLineStringElement _ _ _) = ''MultiLineString''"

text \<open>
  \<^verbatim>\<open>counts\<close> is an object: its keys in order, each with its count.
  \<^verbatim>\<open>counts[k] += 1\<close> updates the count of a key that is there, which is the only
  case that occurs.
\<close>

type_synonym counts = "(string \<times> nat) list"

definition initial_counts :: counts where
  "initial_counts = [(''Point'', 0), (''LineString'', 0), (''Polygon'', 0), (''MultiLineString'', 0)]"

definition increment :: "string \<Rightarrow> counts \<Rightarrow> counts" where
  "increment k cs = map (\<lambda>(k', v). if k' = k then (k', v + 1) else (k', v)) cs"

definition count_of :: "counts \<Rightarrow> string \<Rightarrow> nat" where
  "count_of cs k = (case map_of cs k of None \<Rightarrow> 0 | Some v \<Rightarrow> v)"

text \<open>
  \<^verbatim>\<open>parseFloat(v)\<close> on a value: the argument is converted to a string first.
\<close>

fun parseFloat_val :: "(real \<Rightarrow> string) \<Rightarrow> jsval \<Rightarrow> num" where
  "parseFloat_val ts (JString s) = parseFloat s"
| "parseFloat_val ts (JNumber n) = parseFloat (Number_toString ts n)"
| "parseFloat_val ts JUndefined = parseFloat ''undefined''"

text \<open>
  The four blocks of the callback of \<^verbatim>\<open>placemarks.forEach\<close>, each on the pair of
  \<^verbatim>\<open>counts\<close> and \<^verbatim>\<open>parsedElements\<close>. An array is truthy, so a block runs when the
  property is there.
\<close>

definition point_block :: "placemark \<Rightarrow> counts \<times> element list \<Rightarrow> counts \<times> element list" where
  "point_block placemark st =
     (case Point placemark of
        None \<Rightarrow> st
      | Some pt \<Rightarrow>
          (let counts = increment ''Point'' (fst st);
               coords = parseCoordinates (coordinates0 (first pt))
           in if length coords > 0
              then (counts, snd st @ [PointElement coords (name_or placemark ''Point'')])
              else (counts, snd st)))"

definition lineString_block ::
  "(real \<Rightarrow> string) \<Rightarrow> placemark \<Rightarrow> counts \<times> element list \<Rightarrow> counts \<times> element list" where
  "lineString_block ts placemark st =
     (case LineString placemark of
        None \<Rightarrow> st
      | Some ls \<Rightarrow>
          (let counts = increment ''LineString'' (fst st);
               coords = parseCoordinates (coordinates0 (first ls))
           in if length coords > 1
              then (counts, snd st @
                      [LineStringElement coords (calculateLength ts coords)
                         (name_or placemark ''LineString'')])
              else (counts, snd st)))"

text \<open>
  \<^verbatim>\<open>placemark.Polygon[0]?.outerBoundaryIs?.[0]?.LinearRing?.[0]?.coordinates?.[0]\<close>
\<close>

definition ring_coordinates :: "polygon_node list \<Rightarrow> string option" where
  "ring_coordinates pg =
     coordinates0 (opt_first (Option.bind (opt_first (Option.bind (first pg) outerBoundaryIs)) LinearRing))"

definition polygon_block :: "placemark \<Rightarrow> counts \<times> element list \<Rightarrow> counts \<times> element list" where
  "polygon_block placemark st =
     (case Polygon placemark of
        None \<Rightarrow> st
      | Some pg \<Rightarrow>
          (let counts = increment ''Polygon'' (fst st);
               coords = parseCoordinates (ring_coordinates pg)
           in if length coords > 2
              then (counts, snd st @ [PolygonElement coords (name_or placemark ''Polygon'')])
              else (counts, snd st)))"

text \<open>
  \<^verbatim>\<open>
  if (placemark.MultiGeometry && placemark.MultiGeometry[0]?.LineString) {
    counts["MultiLineString"] += 1;
    const multiCoords = placemark.MultiGeometry[0].LineString.map((line) =>
      parseCoordinates(line?.coordinates?.[0])
    ).filter(coords => coords.length > 1);
    if (multiCoords.length > 0) {
      const totalLength = multiCoords.reduce(
        (acc, coords) => acc + parseFloat(calculateLength(coords)), 0);
      parsedElements.push({ type: "MultiLineString", coords: multiCoords,
        length: totalLength.toFixed(2), name: placemark.name?.[0] || "MultiLineString" });
    }
  }
  \<close>
  The field \<open>lines\<close> of a \<^verbatim>\<open>MultiGeometry\<close> node is its property \<^verbatim>\<open>LineString\<close>.
\<close>

definition multi_lines :: "placemark \<Rightarrow> geom_node list option" where
  "multi_lines placemark = Option.bind (opt_first (MultiGeometry placemark)) lines"

definition totalLength :: "(real \<Rightarrow> string) \<Rightarrow> jsval list list list \<Rightarrow> num" where
  "totalLength ts multiCoords =
     foldl (\<lambda>acc coords. num_add acc (parseFloat_val ts (calculateLength ts coords))) (Fin 0) multiCoords"

definition multi_block ::
  "(real \<Rightarrow> string) \<Rightarrow> placemark \<Rightarrow> counts \<times> element list \<Rightarrow> counts \<times> element list" where
  "multi_block ts placemark st =
     (case multi_lines placemark of
        None \<Rightarrow> st
      | Some lineStrings \<Rightarrow>
          (let counts = increment ''MultiLineString'' (fst st);
               multiCoords = filter (\<lambda>coords. length coords > 1)
                               (map (\<lambda>line. parseCoordinates (coordinates0 (Some line))) lineStrings)
           in if length multiCoords > 0
              then (counts, snd st @
                      [MultiLineStringElement multiCoords (toFixed2 ts (totalLength ts multiCoords))
                         (name_or placemark ''MultiLineString'')])
              else (counts, snd st)))"

definition process_placemark ::
  "(real \<Rightarrow> string) \<Rightarrow> counts \<times> element list \<Rightarrow> placemark \<Rightarrow> counts \<times> element list" where
  "process_placemark ts st placemark =
     multi_block ts placemark
       (polygon_block placemark (lineString_block ts placemark (point_block placemark st)))"

subsection \<open>The viewer's state\<close>

text \<open>
  The four state variables of the component, and the console. \<^verbatim>\<open>summary\<close> starts as
  \<^verbatim>\<open>null\<close>. The error value of the XML parser is of any type \<open>'e\<close>.
\<close>

record 'e viewer =
  elements :: "element list"
  summary :: "counts option"
  showSummary :: bool
  showDetailed :: bool
  console :: "(string \<times> 'e) list"

text \<open>
  \<^verbatim>\<open>
  const processKMLData = (placemarks) => {
    let counts = { Point: 0, LineString: 0, Polygon: 0, MultiLineString: 0 };
    let parsedElements = [];
    placemarks.forEach((placemark) => {...});
    setElements(parsedElements); setSummary(counts);
    setShowSummary(false); setShowDetailed(false);
  };
  \<close>
\<close>

definition processKMLData ::
  "(real \<Rightarrow> string) \<Rightarrow> placemark list \<Rightarrow> 'e viewer \<Rightarrow> 'e viewer" where
  "processKMLData ts placemarks v =
     (let (counts, parsedElements) = foldl (process_placemark ts) (initial_counts, []) placemarks
      in v\<lparr>elements := parsedElements, summary := Some counts,
            showSummary := False, showDetailed := False\<rparr>)"

text \<open>\<^verbatim>\<open>result?.kml?.Document?.[0]?.Placemark\<close>\<close>

definition placemark_path :: "xml_result option \<Rightarrow> placemark list option" where
  "placemark_path result =
     Option.bind (opt_first (Option.bind (Option.bind result kml) Document)) Placemark"

text \<open>
  The handler of \<^verbatim>\<open>reader.onload\<close> in \<^verbatim>\<open>handleFileUpload\<close>. The XML parser
  \<^verbatim>\<open>parseString\<close> is a library; it is the parameter of the same name, which gives the
  error (\<open>Inl\<close>) or the result that the library passes to the callback.
  \<^verbatim>\<open>
  parseString(text, (err, result) => {
    if (err) { console.error("Error parsing KML:", err); return; }
    const placemarks = result?.kml?.Document?.[0]?.Placemark || [];
    processKMLData(placemarks);
  });
  \<close>
\<close>

definition onload ::
  "(real \<Rightarrow> string) \<Rightarrow> (string \<Rightarrow> 'e + xml_result option) \<Rightarrow> string \<Rightarrow> 'e viewer \<Rightarrow> 'e viewer" where
  "onload ts parseString text v =
     (case parseString text of
        Inl err \<Rightarrow> v\<lparr>console := console v @ [(''Error parsing KML:'', err)]\<rparr>
      | Inr result \<Rightarrow>
          (let placemarks = (case placemark_path result of None \<Rightarrow> [] | Some ps \<Rightarrow> ps)
           in processKMLData ts placemarks v))"

text \<open>
  \<^verbatim>\<open>handleFileUpload\<close>: nothing happens without a file; otherwise the file is read
  as text and the handler above runs on it. \<open>files\<close> holds the texts of the chosen files.
\<close>

definition handleFileUpload ::
  "(real \<Rightarrow> string) \<Rightarrow> (string \<Rightarrow> 'e + xml_result option) \<Rightarrow> string list \<Rightarrow> 'e viewer \<Rightarrow> 'e viewer" where
  "handleFileUpload ts parseString files v =
     (case files of [] \<Rightarrow> v | text # _ \<Rightarrow> onload ts parseString text v)"

section \<open>Reference definitions\<close>

subsection \<open>Tags and records of a placemark\<close>

text \<open>
  What the specification of \<^verbatim>\<open>processKMLData\<close> speaks of: whether a placemark carries the
  tag of a kind (for \<^verbatim>\<open>MultiLineString\<close>: a \<^verbatim>\<open>MultiGeometry\<close> whose first node has
  \<^verbatim>\<open>LineString\<close> children), the coordinates parsed from it, whether it yields a record
  of the kind, and the records of a kind in a list of elements.
\<close>

definition has_tag :: "string \<Rightarrow> placemark \<Rightarrow> bool" where
  "has_tag k placemark =
     (if k = ''Point'' then Point placemark \<noteq> None
      else if k = ''LineString'' then LineString placemark \<noteq> None
      else if k = ''Polygon'' then Polygon placemark \<noteq> None
      else if k = ''MultiLineString'' then multi_lines placemark \<noteq> None
      else False)"

definition point_coords :: "placemark \<Rightarrow> jsval list list" where
  "point_coords placemark = parseCoordinates (coordinates0 (opt_first (Point placemark)))"

definition lineString_coords :: "placemark \<Rightarrow> jsval list list" where
  "lineString_coords placemark = parseCoordinates (coordinates0 (opt_first (LineString placemark)))"

definition polygon_coords :: "placemark \<Rightarrow> jsval list list" where
  "polygon_coords placemark = parseCoordinates (Option.bind (Polygon placemark) ring_coordinates)"

definition sub_lines :: "placemark \<Rightarrow> jsval list list list" where
  "sub_lines placemark =
     map (\<lambda>line. parseCoordinates (coordinates0 (Some line)))
       (case multi_lines placemark of None \<Rightarrow> [] | Some ls \<Rightarrow> ls)"

definition makes_record :: "string \<Rightarrow> placemark \<Rightarrow> bool" where
  "makes_record k placemark =
     (if k = ''Point'' then has_tag k placemark \<and> 1 \<le> length (point_coords placemark)
      else if k = ''LineString'' then has_tag k placemark \<and> 2 \<le> length (lineString_coords placemark)
      else if k = ''Polygon'' then has_tag k placemark \<and> 3 \<le> length (polygon_coords placemark)
      else if k = ''MultiLineString'' then
        has_tag k placemark \<and> list_ex (\<lambda>coords. 2 \<le> length coords) (sub_lines placemark)
      else False)"

definition records_of :: "string \<Rightarrow> element list \<Rightarrow> element list" where
  "records_of k es = filter (\<lambda>e. element_type e = k) es"

subsection \<open>Path length as a sum\<close>

text \<open>
  The length of a path as the specification states it: the sum, over the consecutive pairs of
  coordinates, of the haversine distance, where a pair with an endpoint that fails
  \<^verbatim>\<open>isValidCoordinate\<close> counts zero. The formula is evaluated in the arithmetic of the
  program, with the products taken in the order in which the program takes them.
\<close>

definition radians :: "num \<Rightarrow> num" where
  "radians d = num_div (num_mul d Math_PI) (Fin 180)"

definition haversine_km :: "num \<Rightarrow> num \<Rightarrow> num \<Rightarrow> num \<Rightarrow> num" where
  "haversine_km lat1 lon1 lat2 lon2 =
     (let dLat = radians (num_sub lat2 lat1);
          dLon = radians (num_sub lon2 lon1);
          sLat = Math_sin (num_div dLat (Fin 2));
          sLon = Math_sin (num_div dLon (Fin 2));
          a = num_add (num_mul sLat sLat)
                (num_mul (num_mul (num_mul (Math_cos (radians lat1)) (Math_cos (radians lat2))) sLon) sLon);
          c = num_mul (Fin 2) (Math_atan2 (Math_sqrt a) (Math_sqrt (num_sub (Fin 1) a)))
      in num_mul (Fin 6371) c)"

definition latitude :: "jsval list \<Rightarrow> num" where
  "latitude coord = toNumber (elem_at coord 0)"

definition longitude :: "jsval list \<Rightarrow> num" where
  "longitude coord = toNumber (elem_at coord 1)"

definition segment_length :: "jsval list \<Rightarrow> jsval list \<Rightarrow> num" where
  "segment_length p q =
     (if isValidCoordinate p \<and> isValidCoordinate q
      then haversine_km (latitude p) (longitude p) (latitude q) (longitude q)
      else Fin 0)"

definition consecutive_pairs :: "'a list \<Rightarrow> ('a \<times> 'a) list" where
  "consecutive_pairs xs = zip xs (tl xs)"

definition path_length :: "jsval list list \<Rightarrow> num" where
  "path_length coords =
     foldl num_add (Fin 0) (map (\<lambda>(p, q). segment_length p q) (consecutive_pairs coords))"





subsection \<open>Combined length without the strings\<close>

text \<open>
  The variant of the \<^verbatim>\<open>MultiLineString\<close> block that the specification compares with: the same
  block with another way to combine the lengths of the sub-lines, and the way that keeps
  each sub-line's length as a number and rounds only the sum.
\<close>

definition numeric_length :: "jsval list list \<Rightarrow> num" where
  "numeric_length coords = (if length coords < 2 then Fin 0 else calc_loop coords 1 (Fin 0))"

definition exact_totalLength :: "jsval list list list \<Rightarrow> num" where
  "exact_totalLength multiCoords =
     foldl (\<lambda>acc coords. num_add acc (numeric_length coords)) (Fin 0) multiCoords"

definition multi_block_with ::
  "(jsval list list list \<Rightarrow> num) \<Rightarrow> (real \<Rightarrow> string) \<Rightarrow> placemark \<Rightarrow>
   counts \<times> element list \<Rightarrow> counts \<times> element list" where
  "multi_block_with combine ts placemark st =
     (case multi_lines placemark of
        None \<Rightarrow> st
      | Some lineStrings \<Rightarrow>
          (let counts = increment ''MultiLineString'' (fst st);
               multiCoords = filter (\<lambda>coords. length coords > 1)
                               (map (\<lambda>line. parseCoordinates (coordinates0 (Some line))) lineStrings)
           in if length multiCoords > 0
              then (counts, snd st @
                      [MultiLineStringElement multiCoords (toFixed2 ts (combine multiCoords))
                         (name_or placemark ''MultiLineString'')])
              else (counts, snd st)))"

text \<open>A line of two points on the equator, \<open>0.00003\<close> degrees apart (about 3.3 m).\<close>

definition short_line :: "jsval list list" where
  "short_line = [[JNumber (Fin 0), JNumber (Fin 0)], [JNumber (Fin 0), JNumber (Fin (3 / 100000))]]"

text \<open>
  Rounding to two decimals as a number: the nearest hundredth of the magnitude, halves
  upwards, with the sign put back; a value that is not finite stays.
\<close>

fun round2 :: "num \<Rightarrow> num" where
  "round2 (Fin x) = Fin ((if x < 0 then - 1 else 1) * real (nat \<lfloor>\<bar>x\<bar> * 100 + 1 / 2\<rfloor>) / 100)"
| "round2 v = v"

text \<open>A value that is NaN or lies between \<open>0\<close> and a bound.\<close>

definition nan_or_within :: "real \<Rightarrow> num \<Rightarrow> bool" where
  "nan_or_within B v = (case v of NaN \<Rightarrow> True | Fin x \<Rightarrow> 0 \<le> x \<and> x \<le> B | _ \<Rightarrow> False)"

text \<open>
  The way to combine that keeps numbers but rounds each sub-line's length before the sum.
\<close>

definition rounded_totalLength :: "jsval list list list \<Rightarrow> num" where
  "rounded_totalLength multiCoords =
     foldl num_add (Fin 0) (map (\<lambda>coords. round2 (path_length coords)) multiCoords)"

subsection \<open>Tuples of a coordinate string\<close>

text \<open>
  What the specification of \<^verbatim>\<open>parseCoordinates\<close> speaks of: the tuples of a string (its
  pieces between white space), the number that field \<open>i\<close> of a tuple parses to (NaN when
  the tuple has no such field; field \<open>0\<close> is the longitude, field \<open>1\<close> the latitude), the
  tuples whose two fields parse to finite numbers, those whose two fields parse to numbers
  other than NaN, and the coordinate of a tuple, latitude first.
\<close>

definition tuples :: "string \<Rightarrow> string list" where
  "tuples s = split_ws (trim s)"

definition parsed_field :: "nat \<Rightarrow> string \<Rightarrow> num" where
  "parsed_field i tuple =
     (let fields = split_comma tuple
      in if i < length fields then parseFloat (fields ! i) else NaN)"

fun is_finite :: "num \<Rightarrow> bool" where
  "is_finite (Fin _) = True"
| "is_finite _ = False"

definition both_finite :: "string \<Rightarrow> bool" where
  "both_finite tuple = (is_finite (parsed_field 0 tuple) \<and> is_finite (parsed_field 1 tuple))"

definition both_numbers :: "string \<Rightarrow> bool" where
  "both_numbers tuple = (\<not> isNaN (parsed_field 0 tuple) \<and> \<not> isNaN (parsed_field 1 tuple))"

definition swapped :: "string \<Rightarrow> jsval list" where
  "swapped tuple = [JNumber (parsed_field 1 tuple), JNumber (parsed_field 0 tuple)]"

section \<open>Properties\<close>

subsection \<open>Evaluation rules\<close>

lemma digits_of_small: "n < 10 \<Longrightarrow> digits_of n = [digit_char n]"
  by (subst digits_of.simps) simp

lemma digits_of_large: "10 \<le> n \<Longrightarrow> digits_of n = digits_of (n div 10) @ [digit_char (n mod 10)]"
  by (subst digits_of.simps) simp

lemmas parseFloat_eval =
  parseFloat_def starts_with_def isWhiteSpace_def isDigit_def scale10_def exponent_of_def
  digits_val_def digit_val_def

lemmas toFixed2_eval =
  toFixed2_def digit_char_def Let_def digits_of_small digits_of_large

lemmas parseCoordinates_eval =
  parseCoordinates_def trim_def split_ws.simps parse_tuple_def split_comma.simps
  isValidCoordinate_def elem_at_def

subsection \<open>What the parser keeps\<close>

lemma parse_tuple_Some:
  "parse_tuple tok = Some c \<Longrightarrow>
   \<exists>lat lon. c = [JNumber lat, JNumber lon] \<and> \<not> isNaN lat \<and> \<not> isNaN lon"
  by (auto simp: parse_tuple_def isValidCoordinate_def elem_at_def Let_def
           split: list.splits if_splits)

lemma parseCoordinates_elem:
  assumes "c \<in> set (parseCoordinates s)"
  shows "\<exists>tok. parse_tuple tok = Some c"
  using assms by (cases s) (auto simp: parseCoordinates_def split: if_splits)

lemma parseCoordinates_valid_elem:
  assumes "c \<in> set (parseCoordinates s)"
  shows "isValidCoordinate c"
proof -
  from assms obtain tok where "parse_tuple tok = Some c"
    using parseCoordinates_elem by blast
  then obtain lat lon where "c = [JNumber lat, JNumber lon]" "\<not> isNaN lat" "\<not> isNaN lon"
    using parse_tuple_Some by blast
  then show ?thesis by (simp add: isValidCoordinate_def elem_at_def)
qed

subsection \<open>Counts and records\<close>

lemma map_of_increment:
  "map_of (increment k cs) k' = (if k' = k then map_option Suc (map_of cs k') else map_of cs k')"
  by (induction cs) (auto simp: increment_def)

lemma keys_increment: "map fst (increment k cs) = map fst cs"
  by (induction cs) (auto simp: increment_def)

lemma count_of_increment:
  "count_of (increment k cs) k' =
     (if k' = k \<and> k \<in> set (map fst cs) then count_of cs k' + 1 else count_of cs k')"
proof -
  have "map_of cs k = None \<longleftrightarrow> k \<notin> set (map fst cs)"
    by (simp add: map_of_eq_None_iff)
  then show ?thesis
    by (auto simp: count_of_def map_of_increment split: option.splits)
qed

lemma point_block_counts:
  "fst (point_block pm st) = (if has_tag ''Point'' pm then increment ''Point'' (fst st) else fst st)"
  by (simp add: point_block_def has_tag_def Let_def split: option.splits)

lemma lineString_block_counts:
  "fst (lineString_block ts pm st) =
     (if has_tag ''LineString'' pm then increment ''LineString'' (fst st) else fst st)"
  by (simp add: lineString_block_def has_tag_def Let_def split: option.splits)

lemma polygon_block_counts:
  "fst (polygon_block pm st) =
     (if has_tag ''Polygon'' pm then increment ''Polygon'' (fst st) else fst st)"
  by (simp add: polygon_block_def has_tag_def Let_def split: option.splits)

lemma multi_block_counts:
  "fst (multi_block ts pm st) =
     (if has_tag ''MultiLineString'' pm then increment ''MultiLineString'' (fst st) else fst st)"
  by (simp add: multi_block_def has_tag_def Let_def split: option.splits)

lemma point_block_records:
  "length (records_of k (snd (point_block pm st))) =
     length (records_of k (snd st)) + (if k = ''Point'' \<and> makes_record ''Point'' pm then 1 else 0)"
  by (auto simp: point_block_def has_tag_def makes_record_def records_of_def point_coords_def
        opt_first_def Let_def Suc_le_eq split: option.splits)

lemma lineString_block_records:
  "length (records_of k (snd (lineString_block ts pm st))) =
     length (records_of k (snd st)) +
       (if k = ''LineString'' \<and> makes_record ''LineString'' pm then 1 else 0)"
  by (auto simp: lineString_block_def has_tag_def makes_record_def records_of_def
        lineString_coords_def opt_first_def Let_def split: option.splits)

lemma polygon_block_records:
  "length (records_of k (snd (polygon_block pm st))) =
     length (records_of k (snd st)) + (if k = ''Polygon'' \<and> makes_record ''Polygon'' pm then 1 else 0)"
  by (auto simp: polygon_block_def has_tag_def makes_record_def records_of_def polygon_coords_def
        Let_def split: option.splits)

lemma filter_empty_list_ex: "filter P xs = [] \<longleftrightarrow> \<not> list_ex P xs"
  by (simp add: filter_empty_conv list_ex_iff)

lemma multi_block_records:
  "length (records_of k (snd (multi_block ts pm st))) =
     length (records_of k (snd st)) +
       (if k = ''MultiLineString'' \<and> makes_record ''MultiLineString'' pm then 1 else 0)"
proof (cases "multi_lines pm")
  case None
  then show ?thesis by (simp add: multi_block_def makes_record_def has_tag_def)
next
  case (Some ls)
  define mc where "mc = filter (\<lambda>coords. length coords > 1) (sub_lines pm)"
  have gate: "makes_record ''MultiLineString'' pm \<longleftrightarrow> mc \<noteq> []"
  proof -
    have "(\<lambda>coords::jsval list list. length coords > 1) = (\<lambda>coords. 2 \<le> length coords)"
      by auto
    then show ?thesis
      using Some by (simp add: makes_record_def has_tag_def mc_def filter_empty_list_ex)
  qed
  have blk: "snd (multi_block ts pm st) =
      (if mc \<noteq> [] then snd st @ [MultiLineStringElement mc (toFixed2 ts (totalLength ts mc))
                                     (name_or pm ''MultiLineString'')]
       else snd st)"
    using Some by (simp add: multi_block_def mc_def sub_lines_def Let_def)
  show ?thesis
    unfolding blk gate by (simp add: records_of_def)
qed

lemma process_placemark_keys:
  "map fst (fst (process_placemark ts st pm)) = map fst (fst st)"
  by (simp add: process_placemark_def point_block_counts lineString_block_counts
        polygon_block_counts multi_block_counts keys_increment)

lemma process_placemark_count:
  assumes "map fst (fst st) = map fst initial_counts"
  shows "count_of (fst (process_placemark ts st pm)) k =
           count_of (fst st) k + (if has_tag k pm then 1 else 0)"
proof -
  have keys: "set (map fst (fst st)) = {''Point'', ''LineString'', ''Polygon'', ''MultiLineString''}"
    unfolding assms by (auto simp: initial_counts_def)
  show ?thesis
    unfolding process_placemark_def point_block_counts lineString_block_counts
      polygon_block_counts multi_block_counts
    using keys by (auto simp: count_of_increment keys_increment has_tag_def simp del: set_map)
qed

lemma process_placemark_records:
  "length (records_of k (snd (process_placemark ts st pm))) =
     length (records_of k (snd st)) + (if makes_record k pm then 1 else 0)"
proof -
  have other: "\<not> makes_record k pm"
    if "k \<noteq> ''Point''" "k \<noteq> ''LineString''" "k \<noteq> ''Polygon''" "k \<noteq> ''MultiLineString''"
    using that by (simp add: makes_record_def)
  show ?thesis
    unfolding process_placemark_def
    using other
    by (auto simp: point_block_records lineString_block_records polygon_block_records
          multi_block_records)
qed

lemma foldl_process_keys:
  "map fst (fst (foldl (process_placemark ts) st pms)) = map fst (fst st)"
  by (induction pms arbitrary: st) (simp_all add: process_placemark_keys)

lemma foldl_process_count:
  assumes "map fst (fst st) = map fst initial_counts"
  shows "count_of (fst (foldl (process_placemark ts) st pms)) k =
           count_of (fst st) k + length (filter (has_tag k) pms)"
  using assms
proof (induction pms arbitrary: st)
  case Nil
  then show ?case by simp
next
  case (Cons pm pms)
  have "map fst (fst (process_placemark ts st pm)) = map fst initial_counts"
    using Cons.prems by (simp add: process_placemark_keys)
  from Cons.IH [OF this] show ?case
    by (simp add: process_placemark_count [OF Cons.prems])
qed

lemma foldl_process_records:
  "length (records_of k (snd (foldl (process_placemark ts) st pms))) =
     length (records_of k (snd st)) + length (filter (makes_record k) pms)"
  by (induction pms arbitrary: st) (simp_all add: process_placemark_records)

lemma makes_record_has_tag: "makes_record k pm \<Longrightarrow> has_tag k pm"
  by (auto simp: makes_record_def has_tag_def split: if_splits)

lemma processKMLData_summary:
  "summary (processKMLData ts pms v) = Some (fst (foldl (process_placemark ts) (initial_counts, []) pms))"
  by (simp add: processKMLData_def split: prod.splits)

lemma processKMLData_elements:
  "elements (processKMLData ts pms v) = snd (foldl (process_placemark ts) (initial_counts, []) pms)"
  by (simp add: processKMLData_def split: prod.splits)

lemma count_of_initial: "count_of initial_counts k = 0"
  by (simp add: count_of_def initial_counts_def)

text \<open>
  C3. After \<^verbatim>\<open>processKMLData\<close> on any list of placemarks, the count of each kind is the
  number of placemarks that carry the tag of that kind, whatever their coordinates parse to,
  and the number of records of the kind is the number of placemarks that pass its gate: a
  Point with at least 1 parsed coordinate, a LineString with at least 2, a Polygon with at
  least 3, a MultiLineString with at least one sub-line of at least 2 points. The kinds are
  counted independently of each other, so one placemark with several tags counts for each.
\<close>

theorem processKMLData_counts_and_records:
  "\<exists>counts. summary (processKMLData ts placemarks v) = Some counts
     \<and> count_of counts k = length (filter (has_tag k) placemarks)
     \<and> length (records_of k (elements (processKMLData ts placemarks v)))
         = length (filter (makes_record k) placemarks)"
  using foldl_process_count [of "(initial_counts, [])" ts placemarks k]
        foldl_process_records [of k ts "(initial_counts, [])" placemarks]
  by (simp add: processKMLData_summary processKMLData_elements count_of_initial records_of_def)

theorem processKMLData_counts_and_records_witness:
  "\<exists>counts.
     summary (processKMLData (\<lambda>x. [])
        [\<lparr>name = None, Point = Some [\<lparr>coordinates = Some [''1,2,0'']\<rparr>],
          LineString = Some [\<lparr>coordinates = Some [''x'']\<rparr>], Polygon = None,
          MultiGeometry = None\<rparr>]
        \<lparr>elements = [], summary = None, showSummary = False, showDetailed = False,
         console = ([] :: (string \<times> string) list)\<rparr>) = Some counts
     \<and> count_of counts ''LineString'' = 1
     \<and> length (records_of ''LineString'' (elements (processKMLData (\<lambda>x. [])
        [\<lparr>name = None, Point = Some [\<lparr>coordinates = Some [''1,2,0'']\<rparr>],
          LineString = Some [\<lparr>coordinates = Some [''x'']\<rparr>], Polygon = None,
          MultiGeometry = None\<rparr>]
        \<lparr>elements = [], summary = None, showSummary = False, showDetailed = False,
         console = ([] :: (string \<times> string) list)\<rparr>))) = 0"
proof -
  let ?pm = "\<lparr>name = None, Point = Some [\<lparr>coordinates = Some [''1,2,0'']\<rparr>],
          LineString = Some [\<lparr>coordinates = Some [''x'']\<rparr>], Polygon = None,
          MultiGeometry = None\<rparr>"
  have tag: "has_tag ''LineString'' ?pm"
    by (simp add: has_tag_def)
  have "lineString_coords ?pm = []"
    by (simp add: lineString_coords_def coordinates0_def opt_first_def first_def
          parseCoordinates_eval parseFloat_eval)
  then have gate: "\<not> makes_record ''LineString'' ?pm"
    by (simp add: makes_record_def)
  from processKMLData_counts_and_records [of "\<lambda>x. []" "[?pm]"
      "\<lparr>elements = [], summary = None, showSummary = False, showDetailed = False,
        console = ([] :: (string \<times> string) list)\<rparr>" "''LineString''"] tag gate
  show ?thesis by simp
qed

text \<open>
  C10. After \<^verbatim>\<open>processKMLData\<close> on any list of placemarks, the summary has exactly the
  keys Point, LineString, Polygon and MultiLineString, and the count of each kind is at
  least the number of records of that kind among the elements.
\<close>

theorem processKMLData_summary_invariant:
  "\<exists>counts. summary (processKMLData ts placemarks v) = Some counts
     \<and> map fst counts = [''Point'', ''LineString'', ''Polygon'', ''MultiLineString'']
     \<and> length (records_of k (elements (processKMLData ts placemarks v))) \<le> count_of counts k"
proof -
  let ?st = "foldl (process_placemark ts) (initial_counts, []) placemarks"
  have keys: "map fst (fst ?st) = [''Point'', ''LineString'', ''Polygon'', ''MultiLineString'']"
    by (simp add: foldl_process_keys initial_counts_def)
  have "length (filter (makes_record k) placemarks) \<le> length (filter (has_tag k) placemarks)"
  proof (induction placemarks)
    case Nil
    show ?case by simp
  next
    case (Cons pm pms)
    then show ?case using makes_record_has_tag [of k pm] by auto
  qed
  then have "length (records_of k (snd ?st)) \<le> count_of (fst ?st) k"
    using foldl_process_count [of "(initial_counts, [])" ts placemarks k]
          foldl_process_records [of k ts "(initial_counts, [])" placemarks]
    by (simp add: count_of_initial records_of_def)
  with keys show ?thesis
    by (simp add: processKMLData_summary processKMLData_elements)
qed

theorem processKMLData_summary_invariant_witness:
  "\<exists>counts.
     summary (processKMLData (\<lambda>x. [])
        [\<lparr>name = None, Point = Some [\<lparr>coordinates = Some [''1,2,0'']\<rparr>],
          LineString = None, Polygon = None, MultiGeometry = None\<rparr>]
        \<lparr>elements = [], summary = None, showSummary = False, showDetailed = False,
         console = ([] :: (string \<times> string) list)\<rparr>) = Some counts
     \<and> map fst counts = [''Point'', ''LineString'', ''Polygon'', ''MultiLineString'']
     \<and> length (records_of ''Point'' (elements (processKMLData (\<lambda>x. [])
        [\<lparr>name = None, Point = Some [\<lparr>coordinates = Some [''1,2,0'']\<rparr>],
          LineString = None, Polygon = None, MultiGeometry = None\<rparr>]
        \<lparr>elements = [], summary = None, showSummary = False, showDetailed = False,
         console = ([] :: (string \<times> string) list)\<rparr>))) \<le> count_of counts ''Point''"
  using processKMLData_summary_invariant [of "\<lambda>x. []"
        "[\<lparr>name = None, Point = Some [\<lparr>coordinates = Some [''1,2,0'']\<rparr>],
          LineString = None, Polygon = None, MultiGeometry = None\<rparr>]"
        "\<lparr>elements = [], summary = None, showSummary = False, showDetailed = False,
          console = ([] :: (string \<times> string) list)\<rparr>" "''Point''"]
  by simp

subsection \<open>The loop is the sum\<close>

lemma num_add_zero: "num_add x (Fin 0) = x"
  by (cases x) simp_all

lemma valid_destructured:
  "length p = 2 \<Longrightarrow> isValidCoordinate [elem_at p 0, elem_at p (Suc 0)] = isValidCoordinate p"
  by (simp add: isValidCoordinate_def elem_at_def)

lemma calc_loop_step:
  assumes "i < length coords" "length (coords ! (i - 1)) = 2" "length (coords ! i) = 2"
  shows "calc_loop coords i len =
           calc_loop coords (Suc i) (num_add len (segment_length (coords ! (i - 1)) (coords ! i)))"
proof -
  have v1: "isValidCoordinate [elem_at (coords ! (i - Suc 0)) 0, elem_at (coords ! (i - Suc 0)) (Suc 0)]
              = isValidCoordinate (coords ! (i - Suc 0))"
    using assms(2) by (simp add: valid_destructured)
  have v2: "isValidCoordinate [elem_at (coords ! i) 0, elem_at (coords ! i) (Suc 0)]
              = isValidCoordinate (coords ! i)"
    using assms(3) by (simp add: valid_destructured)
  show ?thesis
    by (subst calc_loop.simps)
       (simp add: assms(1) v1 v2 Let_def segment_length_def haversine_km_def radians_def
          latitude_def longitude_def num_add_zero)
qed

lemma calc_loop_done: "length coords \<le> i \<Longrightarrow> calc_loop coords i len = len"
  by (subst calc_loop.simps) simp

lemma calc_loop_fold:
  assumes "\<forall>c\<in>set coords. length c = 2" and "0 < i"
  shows "calc_loop coords i len =
           foldl num_add len
             (map (\<lambda>(p, q). segment_length p q) (zip (drop (i - 1) coords) (drop i coords)))"
  using assms(2)
proof (induction "length coords - i" arbitrary: i len)
  case 0
  then show ?case by (simp add: calc_loop_done)
next
  case (Suc n)
  then have lt: "i < length coords" and lt': "i - 1 < length coords" by simp_all
  have d1: "drop (i - 1) coords = coords ! (i - 1) # drop i coords"
    using Cons_nth_drop_Suc [OF lt'] Suc.prems by simp
  have d2: "drop i coords = coords ! i # drop (Suc i) coords"
    using Cons_nth_drop_Suc [OF lt] by simp
  have l1: "length (coords ! (i - 1)) = 2" and l2: "length (coords ! i) = 2"
    using assms(1) lt lt' by simp_all
  have "n = length coords - Suc i" using Suc.hyps(2) by simp
  from Suc.hyps(1) [OF this] have IH: "calc_loop coords (Suc i) len' =
      foldl num_add len'
        (map (\<lambda>(p, q). segment_length p q) (zip (drop i coords) (drop (Suc i) coords)))" for len'
    by simp
  show ?case
    unfolding calc_loop_step [OF lt l1 l2] IH
    by (subst d1, subst (3) d2) simp
qed

lemma calculateLength_path_length:
  assumes "2 \<le> length coords" and "\<forall>c\<in>set coords. length c = 2"
  shows "calculateLength ts coords = JString (toFixed2 ts (path_length coords))"
proof -
  have "calc_loop coords 1 (Fin 0) = path_length coords"
    using calc_loop_fold [OF assms(2), of 1 "Fin 0"]
    by (simp add: path_length_def consecutive_pairs_def drop_Suc)
  then show ?thesis using assms(1) by (simp add: calculateLength_def)
qed

text \<open>
  C1. For a list of at least two coordinates (arrays of two elements),
  \<^verbatim>\<open>calculateLength\<close> returns the sum over the consecutive pairs of the haversine
  distance with radius 6371, where a pair with an endpoint that fails validation adds
  zero and the loop goes on; the sum is returned in the format of \<^verbatim>\<open>toFixed(2)\<close>.
\<close>

theorem calculateLength_sum:
  assumes "2 \<le> length coords" and "\<forall>c\<in>set coords. length c = 2"
  shows "calculateLength ts coords = JString (toFixed2 ts (path_length coords))"
  using assms by (rule calculateLength_path_length)

subsection \<open>Lengths of sub-lines\<close>

lemma haversine_equator:
  assumes "0 < d" and "d < 180"
  shows "haversine_km (Fin 0) (Fin 0) (Fin 0) (Fin d) = Fin (6371 * (d * pi / 180))"
proof -
  define h where "h = d * pi / 360"
  have h0: "0 < h" using assms(1) by (simp add: h_def)
  have h1: "h < pi / 2" using assms(2) by (simp add: h_def)
  have s: "0 < sin h" using h0 h1 by (rule sin_gt_zero2)
  have c: "0 < cos h" using h0 h1 by (rule cos_gt_zero)
  have c2: "1 - sin h * sin h = cos h * cos h"
    using sin_cos_squared_add [of h] by (simp add: power2_eq_square)
  have at: "atan2_real (sin h) (cos h) = h"
    using c h0 h1 arctan_tan [of h] by (simp add: atan2_real_def tan_def)
  have a: "num_add (num_mul (Fin 0) (Fin 0))
             (num_mul (num_mul (num_mul (Fin 1) (Fin 1)) (Fin (sin h))) (Fin (sin h)))
           = Fin (sin h * sin h)"
    by simp
  have "haversine_km (Fin 0) (Fin 0) (Fin 0) (Fin d) = Fin (6371 * (2 * h))"
    unfolding haversine_km_def radians_def Math_PI_def num_sub_def Let_def
    using s c by (simp add: h_def [symmetric] c2 at)
  then show ?thesis by (simp add: h_def)
qed


lemma toFixed2_below_half_cent:
  assumes "0 \<le> x" and "x < 1 / 200"
  shows "toFixed2 ts (Fin x) = ''0.00''"
proof -
  have "\<lfloor>x * 100 + 1 / 2\<rfloor> = 0" using assms by (simp add: floor_eq_iff)
  moreover have "\<not> 10 ^ 21 \<le> x" using assms(2) by simp
  ultimately show ?thesis using assms(1) by (simp add: toFixed2_eval)
qed

lemma toFixed2_one_cent:
  assumes "1 / 200 \<le> x" and "x < 3 / 200"
  shows "toFixed2 ts (Fin x) = ''0.01''"
proof -
  have "\<lfloor>x * 100 + 1 / 2\<rfloor> = 1" using assms by (simp add: floor_eq_iff)
  moreover have "\<not> 10 ^ 21 \<le> x" using assms(2) by simp
  moreover have "\<not> x < 0" using assms(1) by simp
  ultimately show ?thesis using assms(1) by (simp add: toFixed2_eval)
qed

lemma parse_short_line: "parseCoordinates (Some ''0,0 0.00003,0'') = short_line"
  by (simp add: parseCoordinates_eval parseFloat_eval short_line_def)

lemma path_length_short_line: "path_length short_line = Fin (6371 * (3 / 100000 * pi / 180))"
proof -
  have "path_length short_line =
          num_add (Fin 0) (haversine_km (Fin 0) (Fin 0) (Fin 0) (Fin (3 / 100000)))"
    by (simp add: path_length_def consecutive_pairs_def short_line_def segment_length_def
          isValidCoordinate_def elem_at_def latitude_def longitude_def)
  then show ?thesis by (simp add: haversine_equator)
qed

lemma short_line_pairs: "2 \<le> length short_line" "\<forall>c\<in>set short_line. length c = 2"
  by (simp_all add: short_line_def)

lemma numeric_length_short_line: "numeric_length short_line = Fin (6371 * (3 / 100000 * pi / 180))"
proof -
  have "calc_loop short_line 1 (Fin 0) = path_length short_line"
    using calc_loop_fold [OF short_line_pairs(2), of 1 "Fin 0"]
    by (simp add: path_length_def consecutive_pairs_def drop_Suc)
  then show ?thesis
    using short_line_pairs(1) by (simp add: numeric_length_def path_length_short_line)
qed

lemma calculateLength_short_line: "calculateLength ts short_line = JString ''0.00''"
proof -
  have "0 \<le> 6371 * (3 / 100000 * pi / 180)" by simp
  moreover have "6371 * (3 / 100000 * pi / 180) < 1 / 200" using pi_less_4 by simp
  ultimately show ?thesis
    by (simp add: calculateLength_path_length [OF short_line_pairs] path_length_short_line
          toFixed2_below_half_cent)
qed

lemma totalLength_short_lines:
  "toFixed2 ts (totalLength ts [short_line, short_line, short_line]) = ''0.00''"
  by (simp add: totalLength_def calculateLength_short_line parseFloat_eval toFixed2_eval)

lemma exact_totalLength_short_lines:
  "toFixed2 ts (exact_totalLength [short_line, short_line, short_line]) = ''0.01''"
proof -
  have e: "exact_totalLength [short_line, short_line, short_line]
           = Fin (3 * (6371 * (3 / 100000 * pi / 180)))"
    by (simp add: exact_totalLength_def numeric_length_short_line)
  have "1 / 200 \<le> 3 * (6371 * (3 / 100000 * pi / 180))" using pi_ge_two by simp
  moreover have "3 * (6371 * (3 / 100000 * pi / 180)) < 3 / 200" using pi_less_4 by simp
  ultimately show ?thesis unfolding e by (rule toFixed2_one_cent)
qed

theorem calculateLength_sum_witness:
  "calculateLength (\<lambda>x. [])
     [[JNumber (Fin 0), JNumber (Fin 0)], [JNumber (Fin 0), JNumber (Fin (1 / 10000))],
      [JNumber NaN, JNumber (Fin 0)]]
   = JString (toFixed2 (\<lambda>x. []) (path_length
       [[JNumber (Fin 0), JNumber (Fin 0)], [JNumber (Fin 0), JNumber (Fin (1 / 10000))],
        [JNumber NaN, JNumber (Fin 0)]]))
   \<and> calculateLength (\<lambda>x. [])
        [[JNumber (Fin 0), JNumber (Fin 0)], [JNumber (Fin 0), JNumber (Fin (1 / 10000))],
         [JNumber NaN, JNumber (Fin 0)]] = JString ''0.01''"
proof -
  let ?cs = "[[JNumber (Fin 0), JNumber (Fin 0)], [JNumber (Fin 0), JNumber (Fin (1 / 10000))],
              [JNumber NaN, JNumber (Fin 0)]]"
  have h1: "2 \<le> length ?cs" by simp
  have h2: "\<forall>c\<in>set ?cs. length c = 2" by simp
  have "path_length ?cs =
          num_add (num_add (Fin 0) (haversine_km (Fin 0) (Fin 0) (Fin 0) (Fin (1 / 10000)))) (Fin 0)"
    by (simp add: path_length_def consecutive_pairs_def segment_length_def
          isValidCoordinate_def elem_at_def latitude_def longitude_def)
  then have p: "path_length ?cs = Fin (6371 * (1 / 10000 * pi / 180))"
    by (simp add: haversine_equator)
  have "1 / 200 \<le> 6371 * (1 / 10000 * pi / 180)" using pi_ge_two by simp
  moreover have "6371 * (1 / 10000 * pi / 180) < 3 / 200" using pi_less_4 by simp
  ultimately have "toFixed2 (\<lambda>x. []) (path_length ?cs) = ''0.01''"
    unfolding p by (rule toFixed2_one_cent)
  with calculateLength_sum [OF h1 h2, of "\<lambda>x. []"] show ?thesis by simp
qed

text \<open>
  C5, as stated, fails: for a \<^verbatim>\<open>MultiGeometry\<close> of three lines of about 3.3 m each, the
  block sums the three strings \<^verbatim>\<open>"0.00"\<close> and records \<^verbatim>\<open>"0.00"\<close>, while the
  variant that keeps the numbers and rounds the sum of about 10 m records \<^verbatim>\<open>"0.01"\<close>.
\<close>

theorem multi_length_counterexample:
  "snd (multi_block (\<lambda>x. [])
      \<lparr>name = None, Point = None, LineString = None, Polygon = None,
       MultiGeometry = Some [\<lparr>lines = Some
         [\<lparr>coordinates = Some [''0,0 0.00003,0'']\<rparr>,
          \<lparr>coordinates = Some [''0,0 0.00003,0'']\<rparr>,
          \<lparr>coordinates = Some [''0,0 0.00003,0'']\<rparr>]\<rparr>]\<rparr>
      (initial_counts, []))
   = [MultiLineStringElement [short_line, short_line, short_line] ''0.00'' ''MultiLineString'']
   \<and>
   snd (multi_block_with exact_totalLength (\<lambda>x. [])
      \<lparr>name = None, Point = None, LineString = None, Polygon = None,
       MultiGeometry = Some [\<lparr>lines = Some
         [\<lparr>coordinates = Some [''0,0 0.00003,0'']\<rparr>,
          \<lparr>coordinates = Some [''0,0 0.00003,0'']\<rparr>,
          \<lparr>coordinates = Some [''0,0 0.00003,0'']\<rparr>]\<rparr>]\<rparr>
      (initial_counts, []))
   = [MultiLineStringElement [short_line, short_line, short_line] ''0.01'' ''MultiLineString'']"
proof -
  have len: "Suc 0 < length short_line" by (simp add: short_line_def)
  show ?thesis
    by (simp add: multi_block_def multi_block_with_def multi_lines_def opt_first_def first_def
          coordinates0_def parse_short_line len totalLength_short_lines
          exact_totalLength_short_lines name_or_def)
qed

subsection \<open>Formatting and parsing back\<close>

lemma digit_char_props:
  assumes "d < 10"
  shows "digit_val (digit_char d) = d" and "isDigit (digit_char d)"
proof -
  from assms have "d \<in> {0, 1, 2, 3, 4, 5, 6, 7, 8, 9}" by auto
  then show "digit_val (digit_char d) = d" and "isDigit (digit_char d)"
    by (auto simp: digit_char_def digit_val_def isDigit_def)
qed

lemma digits_of_all_digits: "list_all isDigit (digits_of n)"
proof (induction n rule: digits_of.induct)
  case (1 n)
  show ?case
  proof (cases "n < 10")
    case True
    then show ?thesis by (simp add: digits_of_small digit_char_props)
  next
    case False
    then show ?thesis using 1 by (simp add: digits_of_large digit_char_props)
  qed
qed

lemma digits_val_snoc: "digits_val (ds @ [c]) = 10 * digits_val ds + digit_val c"
  by (simp add: digits_val_def)

lemma digits_val_digits_of: "digits_val (digits_of n) = n"
proof (induction n rule: digits_of.induct)
  case (1 n)
  show ?case
  proof (cases "n < 10")
    case True
    then show ?thesis by (simp add: digits_of_small digits_val_def digit_char_props)
  next
    case False
    then show ?thesis using 1 by (simp add: digits_of_large digits_val_snoc digit_char_props)
  qed
qed

lemma digits_of_nonempty: "digits_of n \<noteq> []"
  by (subst digits_of.simps) simp

lemma digits_val_zeros: "digits_val (replicate k (CHR ''0'') @ ds) = digits_val ds"
proof -
  have "foldl (\<lambda>acc c. 10 * acc + digit_val c) 0 (replicate k (CHR ''0'')) = 0"
    by (induction k) (simp_all add: digit_val_def)
  then show ?thesis by (simp add: digits_val_def)
qed

lemma isDigit_not_special:
  assumes "isDigit c"
  shows "\<not> isWhiteSpace c" "c \<noteq> CHR ''-''" "c \<noteq> CHR ''+''" "c \<noteq> CHR ''I''" "c \<noteq> CHR ''.''"
  using assms by (auto simp: isDigit_def isWhiteSpace_def)

lemma takeWhile_digits:
  assumes "list_all isDigit a"
  shows "takeWhile isDigit (a @ CHR ''.'' # b) = a" "dropWhile isDigit (a @ CHR ''.'' # b) = CHR ''.'' # b"
  using assms by (induction a) (simp_all add: isDigit_def)

lemma takeWhile_all_digits:
  assumes "list_all isDigit b"
  shows "takeWhile isDigit b = b" "dropWhile isDigit b = []"
  using assms by (induction b) simp_all

lemma parseFloat_fixed:
  assumes a: "list_all isDigit a" "a \<noteq> []" and b: "list_all isDigit b"
  shows "parseFloat (a @ ''.'' @ b) = Fin (real (digits_val (a @ b)) / 10 ^ length b)"
    and "parseFloat (''-'' @ a @ ''.'' @ b) = Fin (- (real (digits_val (a @ b)) / 10 ^ length b))"
proof -
  define u where "u = a @ CHR ''.'' # b"
  from a obtain c a' where ca: "a = c # a'" and c: "isDigit c" by (cases a) auto
  note sp = isDigit_not_special [OF c]
  have hd: "dropWhile isWhiteSpace u = u" "\<not> starts_with ''-'' u" "\<not> starts_with ''+'' u"
    "\<not> starts_with ''Infinity'' u"
    using sp by (simp_all add: u_def ca starts_with_def)
  have tw: "takeWhile isDigit u = a" "dropWhile isDigit u = CHR ''.'' # b"
    using takeWhile_digits [OF a(1), of b] by (simp_all add: u_def)
  have dot: "starts_with ''.'' (CHR ''.'' # b)" by (simp add: starts_with_def)
  have ex: "exponent_of [] = 0" by (simp add: exponent_of_def)
  have hd': "dropWhile isWhiteSpace (CHR ''-'' # u) = CHR ''-'' # u"
    "starts_with ''-'' (CHR ''-'' # u)" "\<not> starts_with ''+'' (CHR ''-'' # u)"
    "\<not> isWhiteSpace CHR ''-''"
    by (simp_all add: starts_with_def isWhiteSpace_def)
  have "parseFloat u = Fin (real (digits_val (a @ b)) / 10 ^ length b)"
    using a(2)
    by (simp add: parseFloat_def hd tw dot takeWhile_all_digits [OF b] ex scale10_def Let_def)
  then show "parseFloat (a @ ''.'' @ b) = Fin (real (digits_val (a @ b)) / 10 ^ length b)"
    by (simp add: u_def)
  have "parseFloat (CHR ''-'' # u) = Fin (- (real (digits_val (a @ b)) / 10 ^ length b))"
    using a(2)
    by (simp add: parseFloat_def hd hd' tw dot takeWhile_all_digits [OF b] ex scale10_def Let_def)
  then show "parseFloat (''-'' @ a @ ''.'' @ b) = Fin (- (real (digits_val (a @ b)) / 10 ^ length b))"
    by (simp add: u_def)
qed

lemma parseFloat_toFixed2_finite:
  assumes "\<bar>x\<bar> < 10 ^ 21"
  shows "parseFloat (toFixed2 ts (Fin x)) = round2 (Fin x)"
proof -
  define n where "n = nat \<lfloor>\<bar>x\<bar> * 100 + 1 / 2\<rfloor>"
  define m where "m = (if length (digits_of n) \<le> 2
                       then replicate (3 - length (digits_of n)) (CHR ''0'') @ digits_of n
                       else digits_of n)"
  define k where "k = length m"
  have len: "3 \<le> k"
    using digits_of_nonempty [of n] by (auto simp: k_def m_def)
  have dig: "list_all isDigit m"
    using digits_of_all_digits [of n] by (simp add: m_def isDigit_def list_all_iff)
  have val: "digits_val m = n"
    by (simp add: m_def digits_val_zeros digits_val_digits_of)
  have a: "list_all isDigit (take (k - 2) m)" "take (k - 2) m \<noteq> []"
    using dig len by (auto simp: list_all_iff k_def dest: in_set_takeD)
  have b: "list_all isDigit (drop (k - 2) m)" "length (drop (k - 2) m) = 2"
    using dig len by (auto simp: list_all_iff k_def dest: in_set_dropD)
  have tf: "toFixed2 ts (Fin x) =
              (if x < 0 then ''-'' else []) @ take (k - 2) m @ ''.'' @ drop (k - 2) m"
    using assms by (simp add: toFixed2_def Let_def n_def m_def k_def)
  show ?thesis
  proof (cases "x < 0")
    case True
    then show ?thesis
      using parseFloat_fixed(2) [OF a b(1)] b(2)
      by (simp add: tf val n_def)
  next
    case False
    then show ?thesis
      using parseFloat_fixed(1) [OF a b(1)] b(2)
      by (simp add: tf val n_def)
  qed
qed

lemma parseFloat_toFixed2_special:
  "parseFloat (toFixed2 ts NaN) = NaN"
  "parseFloat (toFixed2 ts PosInf) = PosInf"
  "parseFloat (toFixed2 ts NegInf) = NegInf"
  by (simp_all add: toFixed2_def parseFloat_eval)

subsection \<open>Bounds on lengths\<close>

lemma atan2_quadrant:
  assumes "0 \<le> y" and "0 \<le> x"
  shows "0 \<le> atan2_real y x" and "atan2_real y x \<le> pi / 2"
proof -
  have "0 \<le> arctan (y / x)" using assms by (simp add: zero_le_arctan_iff)
  moreover have "arctan (y / x) \<le> pi / 2" using arctan_ubound [of "y / x"] by simp
  ultimately show "0 \<le> atan2_real y x" and "atan2_real y x \<le> pi / 2"
    using assms by (auto simp: atan2_real_def)
qed

lemma central_angle_bound:
  "nan_or_within 25484
     (num_mul (Fin 6371) (num_mul (Fin 2) (Math_atan2 (Math_sqrt A) (Math_sqrt (num_sub (Fin 1) A)))))"
proof (cases A)
  case (Fin a)
  show ?thesis
  proof (cases "a < 0 \<or> 1 < a")
    case True
    then show ?thesis by (auto simp: Fin num_sub_def nan_or_within_def)
  next
    case False
    then have r: "0 \<le> sqrt a" "0 \<le> sqrt (1 - a)" by simp_all
    have "atan2_real (sqrt a) (sqrt (1 - a)) \<le> 2"
      using atan2_quadrant(2) [OF r] pi_less_4 by simp
    then show ?thesis
      using False atan2_quadrant(1) [OF r]
      by (simp add: Fin num_sub_def nan_or_within_def)
  qed
qed (simp_all add: num_sub_def nan_or_within_def)

lemma segment_length_bound: "nan_or_within 25484 (segment_length p q)"
  using central_angle_bound
  by (simp add: segment_length_def haversine_km_def Let_def nan_or_within_def)

lemma foldl_num_add_bound:
  assumes "nan_or_within B acc" and "\<forall>s\<in>set segs. nan_or_within C s"
  shows "nan_or_within (B + C * real (length segs)) (foldl num_add acc segs)"
  using assms
proof (induction segs arbitrary: B acc)
  case Nil
  then show ?case by simp
next
  case (Cons s segs)
  have "nan_or_within (B + C) (num_add acc s)"
    using Cons.prems by (cases acc; cases s) (simp_all add: nan_or_within_def)
  from Cons.IH [OF this] Cons.prems(2) show ?case
    by (simp add: algebra_simps)
qed

lemma path_length_bound:
  "nan_or_within (25484 * real (length coords)) (path_length coords)"
proof -
  let ?segs = "map (\<lambda>(p, q). segment_length p q) (consecutive_pairs coords)"
  have "\<forall>s\<in>set ?segs. nan_or_within 25484 s"
    by (auto simp: segment_length_bound)
  moreover have "nan_or_within 0 (Fin 0)" by (simp add: nan_or_within_def)
  ultimately have b: "nan_or_within (0 + 25484 * real (length ?segs)) (path_length coords)"
    unfolding path_length_def by (rule foldl_num_add_bound [rotated])
  have "real (length ?segs) \<le> real (length coords)"
    by (simp add: consecutive_pairs_def)
  then have "25484 * real (length ?segs) \<le> 25484 * real (length coords)" by simp
  with b show ?thesis
    by (cases "path_length coords") (simp_all add: nan_or_within_def)
qed

lemma parseFloat_toFixed2_path_length:
  assumes "length coords \<le> 10 ^ 16"
  shows "parseFloat (toFixed2 ts (path_length coords)) = round2 (path_length coords)"
proof (cases "path_length coords")
  case (Fin x)
  have "real (length coords) \<le> 10 ^ 16" using assms
    by (metis of_nat_le_iff of_nat_numeral of_nat_power)
  then have "25484 * real (length coords) \<le> 25484 * 10 ^ 16" by simp
  moreover have "0 \<le> x" "x \<le> 25484 * real (length coords)"
    using path_length_bound [of coords] by (simp_all add: Fin nan_or_within_def)
  ultimately have "\<bar>x\<bar> < 10 ^ 21" by simp
  then show ?thesis unfolding Fin by (rule parseFloat_toFixed2_finite)
qed (simp_all add: parseFloat_toFixed2_special)

lemma totalLength_rounded:
  assumes "\<forall>coords\<in>set mc. 2 \<le> length coords \<and> (\<forall>c\<in>set coords. length c = 2)
             \<and> length coords \<le> 10 ^ 16"
  shows "totalLength ts mc = rounded_totalLength mc"
proof -
  have "foldl (\<lambda>acc coords. num_add acc (parseFloat_val ts (calculateLength ts coords))) acc mc
        = foldl num_add acc (map (\<lambda>coords. round2 (path_length coords)) mc)" for acc
    using assms
  proof (induction mc arbitrary: acc)
    case Nil
    show ?case by simp
  next
    case (Cons coords mc)
    then have c: "2 \<le> length coords" "\<forall>c\<in>set coords. length c = 2" "length coords \<le> 10 ^ 16"
      by simp_all
    have "parseFloat_val ts (calculateLength ts coords) = round2 (path_length coords)"
      by (simp add: calculateLength_path_length [OF c(1,2)] parseFloat_toFixed2_path_length [OF c(3)])
    with Cons show ?case by simp
  qed
  then show ?thesis by (simp add: totalLength_def rounded_totalLength_def)
qed

lemma multi_block_as_with: "multi_block ts pm st = multi_block_with (totalLength ts) ts pm st"
  by (simp add: multi_block_def multi_block_with_def)

lemma sub_lines_pairs:
  assumes "coords \<in> set (sub_lines pm)" and "c \<in> set coords"
  shows "length c = 2"
proof -
  from assms(1) obtain s where "coords = parseCoordinates s"
    by (auto simp: sub_lines_def)
  with assms(2) have "isValidCoordinate c" using parseCoordinates_valid_elem by blast
  then show ?thesis by (simp add: isValidCoordinate_def)
qed

text \<open>
  C5, amended. For a \<^verbatim>\<open>MultiGeometry\<close> whose sub-lines have at most \<open>10^16\<close> points
  each, the block records the 2-decimal format of the sum of the sub-lines' lengths after
  each of them has been rounded to two decimals: going through the strings is the same as
  rounding each sub-total as a number. It is not the same as rounding only the sum.
\<close>

theorem multi_block_rounds_sub_lines:
  assumes "\<forall>coords\<in>set (sub_lines pm). length coords \<le> 10 ^ 16"
  shows "multi_block ts pm st = multi_block_with rounded_totalLength ts pm st"
proof (cases "multi_lines pm")
  case None
  then show ?thesis by (simp add: multi_block_def multi_block_with_def)
next
  case (Some ls)
  define mc where "mc = filter (\<lambda>coords. length coords > 1) (sub_lines pm)"
  have "\<forall>coords\<in>set mc. 2 \<le> length coords \<and> (\<forall>c\<in>set coords. length c = 2)
          \<and> length coords \<le> 10 ^ 16"
    using assms sub_lines_pairs [of _ pm] by (auto simp: mc_def)
  then have "totalLength ts mc = rounded_totalLength mc" by (rule totalLength_rounded)
  then show ?thesis
    using Some by (simp add: multi_block_def multi_block_with_def mc_def sub_lines_def Let_def)
qed

theorem multi_block_rounds_sub_lines_witness:
  "multi_block (\<lambda>x. [])
      \<lparr>name = None, Point = None, LineString = None, Polygon = None,
       MultiGeometry = Some [\<lparr>lines = Some
         [\<lparr>coordinates = Some [''0,0 0.00003,0'']\<rparr>,
          \<lparr>coordinates = Some [''0,0 0.00003,0'']\<rparr>]\<rparr>]\<rparr>
      (initial_counts, [])
   = multi_block_with rounded_totalLength (\<lambda>x. [])
      \<lparr>name = None, Point = None, LineString = None, Polygon = None,
       MultiGeometry = Some [\<lparr>lines = Some
         [\<lparr>coordinates = Some [''0,0 0.00003,0'']\<rparr>,
          \<lparr>coordinates = Some [''0,0 0.00003,0'']\<rparr>]\<rparr>]\<rparr>
      (initial_counts, [])"
proof -
  let ?pm = "\<lparr>name = None, Point = None, LineString = None, Polygon = None,
       MultiGeometry = Some [\<lparr>lines = Some
         [\<lparr>coordinates = Some [''0,0 0.00003,0'']\<rparr>,
          \<lparr>coordinates = Some [''0,0 0.00003,0'']\<rparr>]\<rparr>]\<rparr>"
  have sl: "sub_lines ?pm = [short_line, short_line]"
    by (simp add: sub_lines_def multi_lines_def opt_first_def first_def coordinates0_def
          parse_short_line)
  have h: "\<forall>coords\<in>set (sub_lines ?pm). length coords \<le> 10 ^ 16"
    unfolding sl by (simp add: short_line_def)
  from multi_block_rounds_sub_lines [OF h, of "\<lambda>x. []" "(initial_counts, [])"]
  show ?thesis by simp
qed

subsection \<open>Accepted tuples\<close>

lemma parseFloat_empty: "parseFloat [] = NaN"
  by (simp add: parseFloat_eval)

lemma parse_tuple_both_numbers:
  "parse_tuple tuple = (if both_numbers tuple then Some (swapped tuple) else None)"
proof (cases "split_comma tuple")
  case Nil
  then show ?thesis by (simp add: parse_tuple_def both_numbers_def parsed_field_def)
next
  case (Cons lng rest)
  show ?thesis
  proof (cases rest)
    case Nil
    then show ?thesis using Cons by (simp add: parse_tuple_def both_numbers_def parsed_field_def)
  next
    case (Cons lat rest')
    then show ?thesis
      using \<open>split_comma tuple = lng # rest\<close>
      by (auto simp: parse_tuple_def both_numbers_def parsed_field_def swapped_def
            isValidCoordinate_def elem_at_def parseFloat_empty Let_def)
  qed
qed

lemma kept_tuples:
  "map the (filter (\<lambda>coord. coord \<noteq> None) (map parse_tuple toks))
     = map swapped (filter both_numbers toks)"
  by (induction toks) (simp_all add: parse_tuple_both_numbers)

text \<open>
  C2, amended. For every coordinate string, \<^verbatim>\<open>parseCoordinates\<close> keeps a tuple if and
  only if its longitude and latitude fields both parse to a number other than NaN (an
  infinity is kept); the kept tuples appear in their order in the input, latitude first,
  and no other tuple appears.
\<close>

theorem parseCoordinates_keeps_numbers:
  "parseCoordinates (Some s) = map swapped (filter both_numbers (tuples s))"
proof (cases "s = []")
  case True
  have "\<not> both_numbers []"
    by (simp add: both_numbers_def parsed_field_def split_comma.simps parseFloat_empty)
  then show ?thesis
    using True by (simp add: parseCoordinates_def tuples_def trim_def split_ws.simps)
next
  case False
  then show ?thesis
    using kept_tuples [of "split_ws (trim s)"] by (simp add: parseCoordinates_def tuples_def)
qed

theorem parseCoordinates_keeps_numbers_witness:
  "parseCoordinates (Some '' 1,2,0 x,3 -Infinity,7'')
     = [[JNumber (Fin 2), JNumber (Fin 1)], [JNumber (Fin 7), JNumber NegInf]]
   \<and> map swapped (filter both_numbers (tuples '' 1,2,0 x,3 -Infinity,7''))
     = [[JNumber (Fin 2), JNumber (Fin 1)], [JNumber (Fin 7), JNumber NegInf]]"
proof -
  have "parseCoordinates (Some '' 1,2,0 x,3 -Infinity,7'')
     = [[JNumber (Fin 2), JNumber (Fin 1)], [JNumber (Fin 7), JNumber NegInf]]"
    by (simp add: parseCoordinates_eval parseFloat_eval)
  with parseCoordinates_keeps_numbers [of "'' 1,2,0 x,3 -Infinity,7''"] show ?thesis by simp
qed

text \<open>
  C2, as stated, fails: the longitude of the tuple \<^verbatim>\<open>Infinity,1\<close> does not parse to a
  finite number, and the tuple is kept.
\<close>

theorem parseCoordinates_finite_counterexample:
  "\<not> both_finite ''Infinity,1''
   \<and> parseCoordinates (Some ''Infinity,1'') = [[JNumber (Fin 1), JNumber PosInf]]
   \<and> parseCoordinates (Some ''Infinity,1'')
       \<noteq> map swapped (filter both_finite (tuples ''Infinity,1''))"
  by (simp add: both_finite_def parsed_field_def tuples_def parseCoordinates_eval parseFloat_eval)

subsection \<open>Reversing a path\<close>

























subsection \<open>Binary64 addition\<close>













subsection \<open>The parser gives valid coordinates\<close>

text \<open>
  C9. Every element of the list that \<^verbatim>\<open>parseCoordinates\<close> returns, for any argument,
  satisfies \<^verbatim>\<open>isValidCoordinate\<close>: it is an array of two numbers (latitude, longitude),
  neither of them NaN.
\<close>

theorem parseCoordinates_valid:
  assumes "c \<in> set (parseCoordinates coordString)"
  shows "isValidCoordinate c \<and>
         (\<exists>lat lon. c = [JNumber lat, JNumber lon] \<and> \<not> isNaN lat \<and> \<not> isNaN lon)"
proof -
  from assms obtain tok where t: "parse_tuple tok = Some c"
    using parseCoordinates_elem by blast
  then obtain lat lon where c: "c = [JNumber lat, JNumber lon]" "\<not> isNaN lat" "\<not> isNaN lon"
    using parse_tuple_Some by blast
  then show ?thesis by (simp add: isValidCoordinate_def elem_at_def)
qed

theorem parseCoordinates_valid_witness:
  "[JNumber (Fin 2), JNumber (Fin 1)] \<in> set (parseCoordinates (Some ''1,2,0 x,y''))
   \<and> isValidCoordinate [JNumber (Fin 2), JNumber (Fin 1)]"
proof -
  have mem: "[JNumber (Fin 2), JNumber (Fin 1)] \<in> set (parseCoordinates (Some ''1,2,0 x,y''))"
    by (simp add: parseCoordinates_eval parseFloat_eval)
  from parseCoordinates_valid [OF mem] mem show ?thesis by simp
qed

subsection \<open>Short paths\<close>

text \<open>
  C6, amended. For the empty list and for a list of one coordinate \<^verbatim>\<open>calculateLength\<close>
  returns the number \<open>0\<close>, which is not the string \<^verbatim>\<open>"0.00"\<close>; the result is a string
  in the format of \<^verbatim>\<open>toFixed(2)\<close> for the lists of two coordinates or more.
\<close>

theorem calculateLength_degenerate:
  "calculateLength ts [] = JNumber (Fin 0) \<and> calculateLength ts [c] = JNumber (Fin 0) \<and>
   JNumber (Fin 0) \<noteq> JString ''0.00'' \<and>
   (\<exists>n. calculateLength ts (c1 # c2 # cs) = JString (toFixed2 ts n))"
  by (auto simp: calculateLength_def)

text \<open>
  C6, as stated, fails: the result for the empty list, and for a list of one coordinate, is
  not the string \<^verbatim>\<open>"0.00"\<close>.
\<close>

theorem calculateLength_degenerate_counterexample:
  "calculateLength (\<lambda>x. []) [] \<noteq> JString ''0.00''
   \<and> calculateLength (\<lambda>x. []) [[JNumber (Fin 0), JNumber (Fin 0)]] \<noteq> JString ''0.00''"
  by (simp add: calculateLength_def)

subsection \<open>Upload\<close>

text \<open>
  C4. When the text does not parse as XML, the handler logs the error and returns: the
  elements, the summary and the two display flags are what they were, and only the console
  has one more entry.
\<close>

theorem onload_parse_error:
  assumes "parseString text = Inl err"
  shows "onload ts parseString text v = v\<lparr>console := console v @ [(''Error parsing KML:'', err)]\<rparr>
         \<and> elements (onload ts parseString text v) = elements v
         \<and> summary (onload ts parseString text v) = summary v
         \<and> showSummary (onload ts parseString text v) = showSummary v
         \<and> showDetailed (onload ts parseString text v) = showDetailed v"
  using assms by (simp add: onload_def)

theorem onload_parse_error_witness:
  "elements (onload (\<lambda>x. []) (\<lambda>t. Inl ''Unclosed root tag'') ''<kml>''
      \<lparr>elements = [PointElement [[JNumber (Fin 2), JNumber (Fin 1)]] ''Point''],
       summary = Some (increment ''Point'' initial_counts),
       showSummary = True, showDetailed = False, console = []\<rparr>)
     = [PointElement [[JNumber (Fin 2), JNumber (Fin 1)]] ''Point'']
   \<and> summary (onload (\<lambda>x. []) (\<lambda>t. Inl ''Unclosed root tag'') ''<kml>''
      \<lparr>elements = [PointElement [[JNumber (Fin 2), JNumber (Fin 1)]] ''Point''],
       summary = Some (increment ''Point'' initial_counts),
       showSummary = True, showDetailed = False, console = []\<rparr>)
     = Some (increment ''Point'' initial_counts)"
proof -
  have h: "(\<lambda>t::string. Inl ''Unclosed root tag'' :: string + xml_result option) ''<kml>''
           = Inl ''Unclosed root tag''"
    by simp
  from onload_parse_error [of "\<lambda>t. Inl ''Unclosed root tag''" "''<kml>''" "''Unclosed root tag''", OF h]
  show ?thesis by simp
qed

text \<open>
  C8. When the text parses and the path \<^verbatim>\<open>kml.Document[0].Placemark\<close> leads nowhere, the
  placemark list is empty: the handler completes, there are no elements, and the summary
  holds the four counts, all zero.
\<close>

theorem onload_no_placemarks:
  assumes "parseString text = Inr result" and "placemark_path result = None"
  shows "onload ts parseString text v =
           v\<lparr>elements := [], summary := Some initial_counts,
              showSummary := False, showDetailed := False\<rparr>
         \<and> initial_counts =
             [(''Point'', 0), (''LineString'', 0), (''Polygon'', 0), (''MultiLineString'', 0)]"
  using assms by (simp add: onload_def processKMLData_def initial_counts_def)

theorem onload_no_placemarks_witness:
  "onload (\<lambda>x. []) (\<lambda>t. Inr (Some \<lparr>kml = Some \<lparr>Document = Some [\<lparr>Placemark = None\<rparr>]\<rparr>\<rparr>))
      ''<kml><Document/></kml>''
      \<lparr>elements = [PointElement [[JNumber (Fin 2), JNumber (Fin 1)]] ''Point''],
       summary = None, showSummary = True, showDetailed = True,
       console = ([] :: (string \<times> string) list)\<rparr>
   = \<lparr>elements = [], summary = Some initial_counts, showSummary = False, showDetailed = False,
      console = []\<rparr>"
proof -
  let ?r = "Some \<lparr>kml = Some \<lparr>Document = Some [\<lparr>Placemark = None\<rparr>]\<rparr>\<rparr>"
  have h1: "(\<lambda>t::string. Inr ?r :: string + xml_result option) ''<kml><Document/></kml>'' = Inr ?r"
    by simp
  have h2: "placemark_path ?r = None"
    by (simp add: placemark_path_def opt_first_def first_def)
  from onload_no_placemarks [of "\<lambda>t. Inr ?r" "''<kml><Document/></kml>''" ?r, OF h1 h2]
  show ?thesis by simp
qed

end
